theory Spec2Isabelle
  imports Main "HOL-Library.Word" "HOL-Library.Multiset" "HOL-Library.Sublist"
begin

section \<open>Data model\<close>

text \<open>
  The Go package \<^verbatim>\<open>api\<close> is not part of the sources at hand. Of \<^verbatim>\<open>api.Message\<close> the
  code reads and writes the field \<^verbatim>\<open>Role\<close> and calls the method \<^verbatim>\<open>GetContentParts\<close>; of a
  content part it reads \<^verbatim>\<open>Type\<close>. Records are extensible, so every further field of the
  Go structs lives in the \<open>more\<close> part of the record and the functions below are
  polymorphic in it. \<^verbatim>\<open>GetContentParts\<close> is a parameter of the functions that call it.
\<close>

record Message =
  Role :: string

record ContentPart =
  Type :: string

section \<open>Request translator: heuristic headers (client.go)\<close>

text \<open>
  \<^verbatim>\<open>hasImageContent\<close>: two nested \<^verbatim>\<open>for ... range\<close> loops, the inner one returning
  \<^verbatim>\<open>true\<close> from the function at the first image-typed part.
\<close>

fun hasImageContent_parts :: "'p ContentPart_scheme list \<Rightarrow> bool" where
  "hasImageContent_parts [] = False"
| "hasImageContent_parts (part # parts) =
     (if Type part = ''image_url'' \<or> Type part = ''image'' then True
      else hasImageContent_parts parts)"

fun hasImageContent :: "('m \<Rightarrow> 'p ContentPart_scheme list) \<Rightarrow> 'm list \<Rightarrow> bool" where
  "hasImageContent GetContentParts [] = False"
| "hasImageContent GetContentParts (msg # messages) =
     (if hasImageContent_parts (GetContentParts msg) then True
      else hasImageContent GetContentParts messages)"

text \<open>\<^verbatim>\<open>getInitiator\<close>: one loop, returning \<^verbatim>\<open>"agent"\<close> at the first assistant or tool message.\<close>

fun getInitiator :: "'m Message_scheme list \<Rightarrow> string" where
  "getInitiator [] = ''user''"
| "getInitiator (msg # messages) =
     (if Role msg = ''assistant'' \<or> Role msg = ''tool'' then ''agent''
      else getInitiator messages)"

section \<open>Errors\<close>

text \<open>
  Go errors as values. \<open>io_EOF\<close> is the sentinel \<^verbatim>\<open>io.EOF\<close>; the other constructors are the
  error values the code builds or passes on. An error made by a library call carries the
  library's text, which no function here inspects: \<open>JSONError\<close> for \<^verbatim>\<open>json.Unmarshal\<close>
  (which never returns \<^verbatim>\<open>io.EOF\<close>), \<open>ReadError\<close> for \<^verbatim>\<open>io.ReadAll\<close> (which reports the end
  of the input as \<^verbatim>\<open>nil\<close>, never as \<^verbatim>\<open>io.EOF\<close>), \<open>TransportError\<close> for the HTTP client and
  the event-stream reader, \<open>StoreError\<close> for the credential store. The remaining ones are
  the \<^verbatim>\<open>fmt.Errorf\<close> calls of client.go, one constructor for each format string.
  \<open>NilDereference\<close> stands for the run-time panic of a call through a nil pointer.
\<close>

datatype error =
    io_EOF
  | UpstreamError int string
  | JSONError string
  | ReadError string
  | TransportError string
  | StoreError string
  | FailedToGetCredentials error
  | NoGitHubToken
  | FailedToRequestToken error
  | FailedToReadResponse error
  | TokenRequestFailed int string
  | FailedToParseTokenResponse error
  | NilDereference

section \<open>Error normalizer (stream.go)\<close>

text \<open>
  \<^verbatim>\<open>strings.Contains\<close>: the second string occurs in the first as a contiguous block.
\<close>

fun Contains :: "string \<Rightarrow> string \<Rightarrow> bool" where
  "Contains [] substr = (substr = [])"
| "Contains (c # s) substr = (take (length substr) (c # s) = substr \<or> Contains s substr)"

text \<open>
  \<^verbatim>\<open>strings.ToLower\<close>: a string of ASCII bytes only has its letters \<^verbatim>\<open>A\<close> to \<^verbatim>\<open>Z\<close> moved
  to \<^verbatim>\<open>a\<close> to \<^verbatim>\<open>z\<close> and every other byte kept; a string with a byte from \<^verbatim>\<open>0x80\<close> on is
  mapped rune by rune through the Unicode tables, which are the parameter \<open>unicodeLower\<close>.
\<close>

definition asciiLower :: "char \<Rightarrow> char" where
  "asciiLower c =
     (if 65 \<le> (of_char c :: nat) \<and> (of_char c :: nat) \<le> 90
      then char_of (of_char c + 32 :: nat) else c)"

definition ToLower :: "(string \<Rightarrow> string) \<Rightarrow> string \<Rightarrow> string" where
  "ToLower unicodeLower s =
     (if list_all (\<lambda>c. (of_char c :: nat) < 128) s then map asciiLower s else unicodeLower s)"

text \<open>
  The anonymous struct \<^verbatim>\<open>errResp\<close> of \<^verbatim>\<open>parseUpstreamError\<close>: the message of the nested
  error object and the top-level message.
\<close>

record errResp =
  Error_Message :: string
  Top_Message :: string

record ChatCompletionChunk =
  Object :: string
  Created :: "64 word"

record ChatCompletionResponse =
  Object :: string
  Created :: "64 word"

text \<open>
  The body of an HTTP response is an \<^verbatim>\<open>io.ReadCloser\<close>. It is represented by what reading
  it to its end gives: the bytes, and the text of the read error when there is one.
  \<^verbatim>\<open>io.ReadAll\<close> returns the two.
\<close>

record ReadCloser =
  bytes :: string
  readError :: "string option"

record http_Response =
  StatusCode :: int
  Body :: ReadCloser

definition ReadAll :: "ReadCloser \<Rightarrow> string \<times> error option" where
  "ReadAll b = (bytes b, map_option ReadError (readError b))"

text \<open>An event of the event-stream reader (package \<^verbatim>\<open>sse\<close>); the code reads its data.\<close>

record Event =
  Data :: string

text \<open>
  What the code calls and is not among the sources, as parameters: the three uses of
  \<^verbatim>\<open>json.Unmarshal\<close>, one for each target type (\<open>None\<close> and \<open>Inl\<close> are a non-nil error),
  the Unicode part of \<^verbatim>\<open>strings.ToLower\<close>, and \<^verbatim>\<open>sse.NewReader\<close>, which maps a
  body to the results that the successive calls of \<^verbatim>\<open>ReadEvent\<close> give.
\<close>

record ('c, 'r) lib =
  unmarshalErrResp :: "string \<Rightarrow> errResp option"
  unmarshalChunk :: "string \<Rightarrow> 'c ChatCompletionChunk_scheme option"
  unmarshalResponse :: "string \<Rightarrow> string + 'r ChatCompletionResponse_scheme"
  unicodeLower :: "string \<Rightarrow> string"
  NewReader :: "ReadCloser \<Rightarrow> (error + Event) list"

definition hint :: string where
  "hint = CHR 0x0A # CHR 0x0A #
     ''Make sure the model is enabled in your Copilot settings: https://github.com/settings/copilot''"

definition enhanceErrorMessage :: "('c, 'r) lib \<Rightarrow> string \<Rightarrow> string" where
  "enhanceErrorMessage L message =
     (let lower = ToLower (unicodeLower L) message in
      if Contains lower ''model'' \<and>
         (Contains lower ''not supported'' \<or> Contains lower ''not available'')
      then message @ hint
      else message)"

definition parseUpstreamError :: "('c, 'r) lib \<Rightarrow> string \<Rightarrow> string" where
  "parseUpstreamError L body =
     (let message = [];
          message = (case unmarshalErrResp L body of
                       Some errResp \<Rightarrow>
                         if Error_Message errResp \<noteq> [] then Error_Message errResp
                         else if Top_Message errResp \<noteq> [] then Top_Message errResp
                         else message
                     | None \<Rightarrow> message)
      in if message = [] then
           (let bodyStr = body;
                bodyStr = (if length bodyStr > 500 then take 500 bodyStr @ ''...'' else bodyStr)
            in if bodyStr = [] then ''unknown error''
               else enhanceErrorMessage L bodyStr)
         else enhanceErrorMessage L message)"

text \<open>
  The error normalizer in the words of the specification (section 4.4): the message of
  the nested shape first, then the top-level one; failing both, the raw body text with its
  truncation, or the placeholder; the hint pass comes last, on whatever message resulted.
  A message mentions a text when the text is a contiguous part (\<open>sublist\<close>) of the
  message in lower case.
\<close>

definition spec_json_message :: "('c, 'r) lib \<Rightarrow> string \<Rightarrow> string" where
  "spec_json_message L body =
     (case unmarshalErrResp L body of
        Some e \<Rightarrow>
          if Error_Message e \<noteq> [] then Error_Message e
          else if Top_Message e \<noteq> [] then Top_Message e
          else []
      | None \<Rightarrow> [])"

definition spec_fallback :: "string \<Rightarrow> string" where
  "spec_fallback body =
     (if body = [] then ''unknown error''
      else if length body > 500 then take 500 body @ ''...''
      else body)"

definition spec_wants_hint :: "('c, 'r) lib \<Rightarrow> string \<Rightarrow> bool" where
  "spec_wants_hint L m =
     (let l = ToLower (unicodeLower L) m in
      sublist ''model'' l \<and> (sublist ''not supported'' l \<or> sublist ''not available'' l))"

definition spec_normalize :: "('c, 'r) lib \<Rightarrow> string \<Rightarrow> string" where
  "spec_normalize L body =
     (let m = (if spec_json_message L body \<noteq> [] then spec_json_message L body
               else spec_fallback body)
      in if spec_wants_hint L m then m @ hint else m)"

section \<open>Stream adapter (stream.go)\<close>

text \<open>
  The struct \<^verbatim>\<open>Stream\<close>. The field \<^verbatim>\<open>done\<close> is written \<open>done'\<close>. The reader is a pointer,
  nil (\<open>None\<close>) in a stream that was made for a non-streaming call; a reader is the list of
  the results its coming \<^verbatim>\<open>ReadEvent\<close> calls give.
\<close>

record 'r Stream =
  resp :: http_Response
  reader :: "(error + Event) list option"
  streaming :: bool
  done' :: bool
  statusChecked :: bool
  response :: "'r ChatCompletionResponse_scheme option"
  err :: "error option"

definition NewStream :: "('c, 'r) lib \<Rightarrow> http_Response \<Rightarrow> bool \<Rightarrow> 'r Stream" where
  "NewStream L resp' streaming' =
     (let s = \<lparr>resp = resp', reader = None, streaming = streaming', done' = False,
                statusChecked = False, response = None, err = None\<rparr>
      in if streaming' then s\<lparr>reader := Some (NewReader L (Body resp'))\<rparr> else s)"

text \<open>
  \<^verbatim>\<open>normalizeChunk\<close> and \<^verbatim>\<open>normalizeResponse\<close>. The argument \<open>now\<close> is what
  \<^verbatim>\<open>time.Now().Unix()\<close> returns (an \<^verbatim>\<open>int64\<close>) when the function reads the clock.
\<close>

definition normalizeChunk ::
  "64 word \<Rightarrow> 'c ChatCompletionChunk_scheme \<Rightarrow> 'c ChatCompletionChunk_scheme" where
  "normalizeChunk now chunk =
     (let chunk = (if ChatCompletionChunk.Object chunk = []
                   then chunk\<lparr>ChatCompletionChunk.Object := ''chat.completion.chunk''\<rparr>
                   else chunk);
          chunk = (if ChatCompletionChunk.Created chunk = 0
                   then chunk\<lparr>ChatCompletionChunk.Created := now\<rparr>
                   else chunk)
      in chunk)"

definition normalizeResponse ::
  "64 word \<Rightarrow> 'r ChatCompletionResponse_scheme \<Rightarrow> 'r ChatCompletionResponse_scheme" where
  "normalizeResponse now resp' =
     (let resp' = (if ChatCompletionResponse.Object resp' = []
                   then resp'\<lparr>ChatCompletionResponse.Object := ''chat.completion''\<rparr>
                   else resp');
          resp' = (if ChatCompletionResponse.Created resp' = 0
                   then resp'\<lparr>ChatCompletionResponse.Created := now\<rparr>
                   else resp')
      in resp')"

text \<open>\<^verbatim>\<open>readNonStreaming\<close> returns the stream as it leaves it, and the error.\<close>

definition readNonStreaming ::
  "('c, 'r) lib \<Rightarrow> 64 word \<Rightarrow> 'r Stream \<Rightarrow> 'r Stream \<times> error" where
  "readNonStreaming L now s =
     (case ReadAll (Body (resp s)) of
        (body, Some e) \<Rightarrow> (s\<lparr>err := Some e\<rparr>, e)
      | (body, None) \<Rightarrow>
          (case unmarshalResponse L body of
             Inl d \<Rightarrow> (s\<lparr>err := Some (JSONError d)\<rparr>, JSONError d)
           | Inr resp' \<Rightarrow> (s\<lparr>response := Some (normalizeResponse now resp')\<rparr>, io_EOF)))"

text \<open>
  The \<^verbatim>\<open>for\<close> loop of \<^verbatim>\<open>Next\<close>, over the results of \<^verbatim>\<open>ReadEvent\<close> still to come: an error
  ends the stream and is kept unless it is \<^verbatim>\<open>io.EOF\<close>; an event without data and an event
  whose data \<^verbatim>\<open>json.Unmarshal\<close> rejects let the loop go on; the first chunk that decodes is
  normalized and returned.
\<close>

text \<open>
  Modelled from the spec: \<^verbatim>\<open>ReadEvent\<close> of the reader package, which is not among the
  sources. It returns the next event or an error; at the natural end of the underlying
  stream, the empty list here, it returns \<^verbatim>\<open>io.EOF\<close>.
\<close>

fun Next_loop ::
  "('c, 'r) lib \<Rightarrow> 64 word \<Rightarrow> 'r Stream \<Rightarrow> (error + Event) list \<Rightarrow>
   'r Stream \<times> 'c ChatCompletionChunk_scheme option \<times> error option" where
  "Next_loop L now s [] =
     (s\<lparr>reader := Some [], done' := True\<rparr>, None, Some io_EOF)"
| "Next_loop L now s (Inl e # r) =
     (s\<lparr>reader := Some r, done' := True, err := (if e \<noteq> io_EOF then Some e else err s)\<rparr>,
      None, Some e)"
| "Next_loop L now s (Inr event # r) =
     (if length (Data event) = 0 then Next_loop L now s r
      else (case unmarshalChunk L (Data event) of
              None \<Rightarrow> Next_loop L now s r
            | Some chunk \<Rightarrow> (s\<lparr>reader := Some r\<rparr>, Some (normalizeChunk now chunk), None)))"

text \<open>
  \<^verbatim>\<open>Next\<close> returns the stream as it leaves it and the pair of Go results, the chunk pointer
  and the error. A call of \<^verbatim>\<open>ReadEvent\<close> through the nil reader would panic; no stream
  made by \<open>NewStream\<close> comes to it.
\<close>

text \<open>
  Modelled from the spec: \<^verbatim>\<open>api.NewUpstreamError\<close>, which is not among the sources. It
  makes the error value \<open>UpstreamError\<close> that carries the status code and the message it
  is given.
\<close>

definition Next ::
  "('c, 'r) lib \<Rightarrow> 64 word \<Rightarrow> 'r Stream \<Rightarrow>
   'r Stream \<times> 'c ChatCompletionChunk_scheme option \<times> error option" where
  "Next L now s =
     (if done' s then (s, None, Some io_EOF)
      else
        (let stream_events = (\<lambda>s. case reader s of
                                None \<Rightarrow> (s, None, Some NilDereference)
                              | Some r \<Rightarrow> Next_loop L now s r)
         in if \<not> statusChecked s then
              (let s = s\<lparr>statusChecked := True\<rparr> in
               if StatusCode (resp s) \<noteq> 200 then
                 (let s = s\<lparr>done' := True\<rparr>;
                      body = fst (ReadAll (Body (resp s)));
                      s = s\<lparr>err := Some (UpstreamError (StatusCode (resp s))
                                                         (parseUpstreamError L body))\<rparr>
                  in (s, None, err s))
               else if \<not> streaming s then
                 (let s = s\<lparr>done' := True\<rparr>;
                      (s, e) = readNonStreaming L now s
                  in (s, None, Some e))
               else stream_events s)
            else stream_events s))"

definition Response :: "'r Stream \<Rightarrow> 'r ChatCompletionResponse_scheme option" where
  "Response s = response s"

definition Err :: "'r Stream \<Rightarrow> error option" where
  "Err s = err s"

text \<open>
  A consumer that calls \<^verbatim>\<open>Next\<close> once for each clock reading of the list, one call after
  the other on the same stream, and keeps every pair of results.
\<close>

fun Next_calls ::
  "('c, 'r) lib \<Rightarrow> 64 word list \<Rightarrow> 'r Stream \<Rightarrow>
   ('c ChatCompletionChunk_scheme option \<times> error option) list \<times> 'r Stream" where
  "Next_calls L [] s = ([], s)"
| "Next_calls L (now # nows) s =
     (let (s', r) = Next L now s;
          (rs, s'') = Next_calls L nows s'
      in (r # rs, s''))"

text \<open>
  The frames that the streaming loop passes over: an event whose data is empty, and an
  event whose data does not decode as a chunk.
\<close>

fun skipped :: "('c, 'r) lib \<Rightarrow> error + Event \<Rightarrow> bool" where
  "skipped L (Inl e) = False"
| "skipped L (Inr event) = (Data event = [] \<or> unmarshalChunk L (Data event) = None)"

text \<open>
  Of the results a reader has in store: the events that come before the first error,
  and the error that ends the stream, \<^verbatim>\<open>io.EOF\<close> when the reader runs to its natural end.
\<close>

fun leading_events :: "(error + Event) list \<Rightarrow> Event list" where
  "leading_events [] = []"
| "leading_events (Inl e # fs) = []"
| "leading_events (Inr event # fs) = event # leading_events fs"

fun stream_end :: "(error + Event) list \<Rightarrow> error" where
  "stream_end [] = io_EOF"
| "stream_end (Inl e # fs) = e"
| "stream_end (Inr event # fs) = stream_end fs"

text \<open>
  The chunks that the streaming loop hands out for a sequence of events: those of the
  events that have data and whose data decodes, in the order of the events.
\<close>

definition surfaced :: "('c, 'r) lib \<Rightarrow> Event list \<Rightarrow> 'c ChatCompletionChunk_scheme list" where
  "surfaced L evs =
     List.map_filter
       (\<lambda>event. if Data event = [] then None else unmarshalChunk L (Data event)) evs"

section \<open>Credential broker (client.go)\<close>

text \<open>
  An instant (\<^verbatim>\<open>time.Time\<close>) is a number of nanoseconds since the Unix epoch;
  \<^verbatim>\<open>time.Unix(sec, 0)\<close> is the instant of a signed 64-bit number of seconds.
\<close>

definition time_Second :: int where
  "time_Second = 1000000000"

definition time_Unix :: "64 word \<Rightarrow> int" where
  "time_Unix sec = sint sec * time_Second"

record CopilotToken =
  Token :: string
  ExpiresAt :: int

record Client =
  copilotToken :: "CopilotToken option"

record OAuthCredentials =
  RefreshToken :: string

text \<open>
  What one call of \<^verbatim>\<open>getCopilotToken\<close> meets outside the client: the two readings of the
  clock, what the credential store answers for this provider, whether building the
  request fails, what the HTTP client answers to a request with a given
  \<^verbatim>\<open>Authorization\<close> header, and \<^verbatim>\<open>json.Unmarshal\<close> on the token response (the token and
  the \<^verbatim>\<open>int64\<close> expiry). An \<open>Inl\<close> or \<open>Some\<close> text is a non-nil error; the store
  returns credentials that are not nil when it returns no error.
\<close>

record world =
  Now_first :: int
  Now_second :: int
  GetOAuthCredentials :: "string + OAuthCredentials"
  NewRequestWithContext :: "string option"
  Do :: "string \<Rightarrow> string + http_Response"
  unmarshalToken :: "string \<Rightarrow> string + (string \<times> 64 word)"

definition getGitHubToken :: "world \<Rightarrow> error + string" where
  "getGitHubToken W =
     (case GetOAuthCredentials W of
        Inl d \<Rightarrow> Inl (FailedToGetCredentials (StoreError d))
      | Inr creds \<Rightarrow>
          if RefreshToken creds = [] then Inl NoGitHubToken
          else Inr (RefreshToken creds))"

definition refreshCopilotToken :: "world \<Rightarrow> string \<Rightarrow> error + CopilotToken" where
  "refreshCopilotToken W githubToken =
     (case NewRequestWithContext W of
        Some d \<Rightarrow> Inl (TransportError d)
      | None \<Rightarrow>
          (case Do W (''token '' @ githubToken) of
             Inl d \<Rightarrow> Inl (FailedToRequestToken (TransportError d))
           | Inr resp' \<Rightarrow>
               (case ReadAll (Body resp') of
                  (body, Some e) \<Rightarrow> Inl (FailedToReadResponse e)
                | (body, None) \<Rightarrow>
                    if StatusCode resp' \<noteq> 200
                    then Inl (TokenRequestFailed (StatusCode resp') body)
                    else (case unmarshalToken W body of
                            Inl d \<Rightarrow> Inl (FailedToParseTokenResponse (JSONError d))
                          | Inr (token, expires_at) \<Rightarrow>
                              Inr \<lparr>Token = token, ExpiresAt = time_Unix expires_at\<rparr>))))"

text \<open>
  The test of lines 58 and 70: there is a cached token and the instant sixty seconds
  from now is before its expiry.
\<close>

definition cached :: "int \<Rightarrow> Client \<Rightarrow> string option" where
  "cached now c =
     (case copilotToken c of
        None \<Rightarrow> None
      | Some t \<Rightarrow> if now + 60 * time_Second < ExpiresAt t then Some (Token t) else None)"

text \<open>
  \<^verbatim>\<open>getCopilotToken\<close> as one caller runs it, no other caller writing the client in
  between: the test under the read lock, then under the write lock the test again and
  the refresh. It returns the client as it leaves it, and the token or the error.
\<close>

definition getCopilotToken :: "world \<Rightarrow> Client \<Rightarrow> Client \<times> (error + string)" where
  "getCopilotToken W c =
     (case cached (Now_first W) c of
        Some token \<Rightarrow> (c, Inr token)
      | None \<Rightarrow>
          (case cached (Now_second W) c of
             Some token \<Rightarrow> (c, Inr token)
           | None \<Rightarrow>
               (case getGitHubToken W of
                  Inl e \<Rightarrow> (c, Inl e)
                | Inr githubToken \<Rightarrow>
                    (case refreshCopilotToken W githubToken of
                       Inl e \<Rightarrow> (c, Inl e)
                     | Inr token \<Rightarrow> (c\<lparr>copilotToken := Some token\<rparr>, Inr (Token token))))))"

section \<open>Provider adapter: role remapping (provider.go)\<close>

text \<open>
  A slice of messages is an address into a store of arrays, so that writing one slice
  and leaving another alone can be told apart. \<^verbatim>\<open>make\<close> takes the next free address and
  fills the new array with the zero value of the element type; the declaration of
  \<^verbatim>\<open>api.Message\<close> is not among the sources, so its zero value is a parameter.
\<close>

record 'a heap =
  arrays :: "nat \<Rightarrow> 'a list"
  free :: nat

definition make_slice :: "'a \<Rightarrow> nat \<Rightarrow> 'a heap \<Rightarrow> 'a heap \<times> nat" where
  "make_slice zero n h =
     (h\<lparr>arrays := (arrays h)(free h := replicate n zero), free := Suc (free h)\<rparr>, free h)"

text \<open>
  The assignment \<^verbatim>\<open>a[i] = v\<close>. Go panics when the index is not below the length of the
  array; the loop of \<^verbatim>\<open>transformMessages\<close> keeps its index below the length of both
  arrays, which have the same length, so the panic is no branch here.
\<close>

definition store :: "'a heap \<Rightarrow> nat \<Rightarrow> nat \<Rightarrow> 'a \<Rightarrow> 'a heap" where
  "store h a i v = h\<lparr>arrays := (arrays h)(a := (arrays h a)[i := v])\<rparr>"

text \<open>
  \<^verbatim>\<open>transformMessages\<close>: the loop runs over the indices of \<^verbatim>\<open>messages\<close>, whose length is
  read once; \<^verbatim>\<open>msg\<close> is a copy of the element. \<open>transformMessages_body\<close> is the body of
  the loop at index \<open>i\<close>.
\<close>

definition transformMessages_body ::
  "nat \<Rightarrow> nat \<Rightarrow> nat \<Rightarrow> 'm Message_scheme heap \<Rightarrow> 'm Message_scheme heap" where
  "transformMessages_body messages result i h =
     (let msg = arrays h messages ! i;
          h = store h result i msg
      in if Role msg = ''system''
         then store h result i ((arrays h result ! i)\<lparr>Role := ''assistant''\<rparr>)
         else h)"

definition transformMessages ::
  "'m Message_scheme \<Rightarrow> 'm Message_scheme heap \<Rightarrow> nat \<Rightarrow> 'm Message_scheme heap \<times> nat" where
  "transformMessages zero h messages =
     (let n = length (arrays h messages);
          (h, result) = make_slice zero n h;
          h = fold (transformMessages_body messages result) [0..<n] h
      in (h, result))"

text \<open>
  The request of \<^verbatim>\<open>ChatCompletion\<close>: the messages, the streaming flag, and in the
  \<open>more\<close> part the thirteen fields that \<^verbatim>\<open>ChatCompletion\<close> copies as they are into the
  request it sends. \<^verbatim>\<open>SendRequest\<close> (the token, the headers and the network call) is a
  parameter: it is given the store and the request and answers with a response or an
  error.
\<close>

record ChatCompletionRequest =
  Messages :: nat
  Stream :: bool

definition ChatCompletion ::
  "('c, 'r) lib \<Rightarrow>
   ('m Message_scheme heap \<Rightarrow> 'q ChatCompletionRequest_scheme \<Rightarrow> error + http_Response) \<Rightarrow>
   'm Message_scheme \<Rightarrow> 'm Message_scheme heap \<Rightarrow> 'q ChatCompletionRequest_scheme \<Rightarrow>
   'm Message_scheme heap \<times> (error + 'r Stream)" where
  "ChatCompletion L SendRequest zero h req =
     (let (h, messages) = transformMessages zero h (Messages req);
          chatReq = req\<lparr>Messages := messages\<rparr>
      in case SendRequest h chatReq of
           Inl e \<Rightarrow> (h, Inl e)
         | Inr resp' \<Rightarrow> (h, Inr (NewStream L resp' (Stream req))))"

text \<open>The remapping of one message in the words of the specification.\<close>

definition remap_role :: "'m Message_scheme \<Rightarrow> 'm Message_scheme" where
  "remap_role m = (if Role m = ''system'' then m\<lparr>Role := ''assistant''\<rparr> else m)"

section \<open>A concrete environment\<close>

text \<open>
  One instance of the parameters, on which the functions above can be run. The decoders
  know a few inputs by name and reject every other one: \<open>''nested-and-top''\<close> and
  \<open>''top-only''\<close> are error bodies, \<open>''chunk''\<close> is the data of a chunk without object kind
  and timestamp, \<open>''response''\<close> a response body without them, and the body \<open>''events''\<close>
  holds an event without data, an event with undecodable data and the chunk.
\<close>

definition example_lib :: "(unit, unit) lib" where
  "example_lib =
     \<lparr>unmarshalErrResp = (\<lambda>body.
          if body = ''nested-and-top''
          then Some \<lparr>Error_Message = ''The requested Model is not supported'',
                      Top_Message = ''bad request''\<rparr>
          else if body = ''top-only''
          then Some \<lparr>Error_Message = [], Top_Message = ''quota exceeded''\<rparr>
          else None),
      unmarshalChunk = (\<lambda>data.
          if data = ''chunk''
          then Some \<lparr>ChatCompletionChunk.Object = [], ChatCompletionChunk.Created = 0\<rparr>
          else None),
      unmarshalResponse = (\<lambda>body.
          if body = ''response''
          then Inr \<lparr>ChatCompletionResponse.Object = [], ChatCompletionResponse.Created = 0\<rparr>
          else Inl ''invalid character''),
      unicodeLower = (\<lambda>s. s),
      NewReader = (\<lambda>b.
          if bytes b = ''events''
          then [Inr \<lparr>Data = []\<rparr>, Inr \<lparr>Data = ''not json''\<rparr>, Inr \<lparr>Data = ''chunk''\<rparr>]
          else [])\<rparr>"

definition example_response :: "int \<Rightarrow> string \<Rightarrow> http_Response" where
  "example_response status body =
     \<lparr>StatusCode = status, Body = \<lparr>bytes = body, readError = None\<rparr>\<rparr>"

text \<open>
  A credential store, a token endpoint and a clock: the endpoint accepts the credential
  \<open>''gho_valid''\<close> and answers every other one with status 401.
\<close>

definition example_world :: "string + OAuthCredentials \<Rightarrow> world" where
  "example_world creds =
     \<lparr>Now_first = 1000 * time_Second,
      Now_second = 1001 * time_Second,
      GetOAuthCredentials = creds,
      NewRequestWithContext = None,
      Do = (\<lambda>authorization.
          if authorization = ''token gho_valid''
          then Inr (example_response 200 ''token-json'')
          else Inr (example_response 401 ''Bad credentials'')),
      unmarshalToken = (\<lambda>body.
          if body = ''token-json'' then Inr (''tid=1'', 5000) else Inl ''invalid character'')\<rparr>"

definition example_client :: Client where
  "example_client = \<lparr>copilotToken = Some \<lparr>Token = ''tid=0'', ExpiresAt = 1030 * time_Second\<rparr>\<rparr>"

text \<open>
  Messages with a content beside the role, and a store that holds one array of them at
  address 0.
\<close>

record example_Message = Message +
  Content :: string

definition example_heap :: "example_Message heap" where
  "example_heap =
     \<lparr>arrays = (\<lambda>a. if a = 0
                     then [\<lparr>Role = ''system'', Content = ''be brief''\<rparr>,
                           \<lparr>Role = ''user'', Content = ''hello''\<rparr>,
                           \<lparr>Role = ''tool'', Content = ''42''\<rparr>]
                     else []),
      free = 1\<rparr>"

section \<open>Properties of the request translator\<close>

lemma hasImageContent_parts_iff:
  "hasImageContent_parts ps \<longleftrightarrow> (\<exists>p \<in> set ps. Type p = ''image_url'' \<or> Type p = ''image'')"
  by (induction ps) auto

text \<open>
  Claim C8. The initiator heuristic is \<open>''user''\<close> for every message sequence in which no
  message has role assistant or tool, and \<open>''agent''\<close> for every sequence that contains at
  least one such message.
\<close>

theorem getInitiator_user_agent:
  "((\<forall>m \<in> set ms. Role m \<noteq> ''assistant'' \<and> Role m \<noteq> ''tool'') \<longrightarrow> getInitiator ms = ''user'') \<and>
   ((\<exists>m \<in> set ms. Role m = ''assistant'' \<or> Role m = ''tool'') \<longrightarrow> getInitiator ms = ''agent'')"
  by (induction ms) auto

theorem getInitiator_user_agent_witness:
  "getInitiator [\<lparr>Role = ''user''\<rparr>, \<lparr>Role = ''user''\<rparr>] = ''user'' \<and>
   getInitiator [\<lparr>Role = ''system''\<rparr>, \<lparr>Role = ''user''\<rparr>, \<lparr>Role = ''tool''\<rparr>] = ''agent''"
  using getInitiator_user_agent [of "[\<lparr>Role = ''user''\<rparr>, \<lparr>Role = ''user''\<rparr>]"]
    getInitiator_user_agent [of "[\<lparr>Role = ''system''\<rparr>, \<lparr>Role = ''user''\<rparr>, \<lparr>Role = ''tool''\<rparr>]"]
  by simp

text \<open>
  Claim C9. The vision flag is true if and only if some content part of some message of
  the sequence has an image type (\<open>''image_url''\<close> or \<open>''image''\<close>): without such a part
  it is false, and one such part anywhere makes it true.
\<close>

theorem hasImageContent_iff:
  "hasImageContent GetContentParts ms \<longleftrightarrow>
   (\<exists>m \<in> set ms. \<exists>p \<in> set (GetContentParts m). Type p = ''image_url'' \<or> Type p = ''image'')"
  by (induction ms) (auto simp: hasImageContent_parts_iff)

theorem hasImageContent_iff_witness:
  "hasImageContent snd
     [(''system'', []),
      (''user'', [\<lparr>Type = ''text''\<rparr>]),
      (''user'', [\<lparr>Type = ''text''\<rparr>, \<lparr>Type = ''image_url''\<rparr>])] \<and>
   \<not> hasImageContent snd
     [(''system'', []),
      (''user'', [\<lparr>Type = ''text''\<rparr>]),
      (''user'', [\<lparr>Type = ''text''\<rparr>, \<lparr>Type = ''input_audio''\<rparr>])]"
  using hasImageContent_iff [where GetContentParts = snd and ms =
      "[(''system'', []),
        (''user'', [\<lparr>Type = ''text''\<rparr>]),
        (''user'', [\<lparr>Type = ''text''\<rparr>, \<lparr>Type = ''image_url''\<rparr>])]"]
    hasImageContent_iff [where GetContentParts = snd and ms =
      "[(''system'', []),
        (''user'', [\<lparr>Type = ''text''\<rparr>]),
        (''user'', [\<lparr>Type = ''text''\<rparr>, \<lparr>Type = ''input_audio''\<rparr>])]"]
  by simp

section \<open>Properties of the error normalizer\<close>

lemma Contains_sublist: "Contains s sub \<longleftrightarrow> sublist sub s"
proof (induction s)
  case Nil
  then show ?case by auto
next
  case (Cons c s)
  have "prefix sub (c # s) \<longleftrightarrow> take (length sub) (c # s) = sub"
    by (metis append_eq_conv_conj prefix_def append_take_drop_id)
  with Cons show ?case
    by (simp only: Contains.simps sublist_Cons_right)
qed

lemma enhanceErrorMessage_spec:
  "enhanceErrorMessage L m = (if spec_wants_hint L m then m @ hint else m)"
  by (simp add: enhanceErrorMessage_def spec_wants_hint_def Let_def Contains_sublist)

lemma enhanceErrorMessage_nonempty: "m \<noteq> [] \<Longrightarrow> enhanceErrorMessage L m \<noteq> []"
  by (simp add: enhanceErrorMessage_def Let_def)

lemma ToLower_unknown_error: "ToLower u ''unknown error'' = ''unknown error''"
  unfolding ToLower_def by code_simp

lemma unknown_error_no_hint: "\<not> spec_wants_hint L ''unknown error''"
  unfolding spec_wants_hint_def Let_def ToLower_unknown_error Contains_sublist [symmetric]
  by simp

lemma ToLower_file_not_available: "ToLower u ''file not available'' = ''file not available''"
  unfolding ToLower_def by code_simp

lemma file_not_available_no_hint: "\<not> spec_wants_hint L ''file not available''"
  unfolding spec_wants_hint_def Let_def ToLower_file_not_available Contains_sublist [symmetric]
  by simp

lemma hint_nonempty: "hint \<noteq> []"
  by (simp add: hint_def)

lemma parseUpstreamError_refines: "parseUpstreamError L body = spec_normalize L body"
proof (cases "spec_json_message L body = []")
  case True
  then have m: "(case unmarshalErrResp L body of
                   Some errResp \<Rightarrow>
                     if Error_Message errResp \<noteq> [] then Error_Message errResp
                     else if Top_Message errResp \<noteq> [] then Top_Message errResp
                     else []
                 | None \<Rightarrow> []) = []"
    by (simp add: spec_json_message_def)
  show ?thesis
  proof (cases "body = []")
    case True
    with m \<open>spec_json_message L body = []\<close> show ?thesis
      by (simp add: parseUpstreamError_def spec_normalize_def spec_fallback_def Let_def
          unknown_error_no_hint)
  next
    case False
    with m \<open>spec_json_message L body = []\<close> show ?thesis
      by (simp add: parseUpstreamError_def spec_normalize_def spec_fallback_def Let_def
          enhanceErrorMessage_spec)
  qed
next
  case False
  then show ?thesis
    by (simp add: parseUpstreamError_def spec_normalize_def spec_json_message_def Let_def
        enhanceErrorMessage_spec split: option.splits)
qed

lemma parseUpstreamError_nonempty: "parseUpstreamError L body \<noteq> []"
  by (auto simp: parseUpstreamError_def Let_def split: option.splits
      intro!: enhanceErrorMessage_nonempty)

text \<open>
  Claim C4. The error normalizer of the code computes what section 4.4 describes
  (\<open>spec_normalize\<close>): the message of the nested error object before the top-level
  message; when neither is non-empty the raw body, cut to its first 500 bytes with
  \<open>''...''\<close> after them when it is longer, or \<open>''unknown error''\<close> when it is empty; and
  the hint is appended exactly when the message in lower case contains \<open>''model''\<close>
  and one of \<open>''not supported''\<close> and \<open>''not available''\<close>. The message
  \<open>''file not available''\<close> gets no hint.
\<close>

theorem parseUpstreamError_spec_normalize:
  "parseUpstreamError L body = spec_normalize L body \<and>
   enhanceErrorMessage L m = (if spec_wants_hint L m then m @ hint else m) \<and>
   (enhanceErrorMessage L m \<noteq> m \<longleftrightarrow> spec_wants_hint L m) \<and>
   enhanceErrorMessage L ''file not available'' = ''file not available''"
  by (simp add: parseUpstreamError_refines enhanceErrorMessage_spec hint_nonempty
      file_not_available_no_hint)

lemma example_parse_nested:
  "parseUpstreamError example_lib ''nested-and-top'' =
     ''The requested Model is not supported'' @ hint"
  by code_simp

lemma example_parse_top: "parseUpstreamError example_lib ''top-only'' = ''quota exceeded''"
  by code_simp

lemma example_parse_empty: "parseUpstreamError example_lib [] = ''unknown error''"
  by code_simp

lemma example_parse_raw:
  "parseUpstreamError example_lib ''Model Not Available'' = ''Model Not Available'' @ hint"
  by code_simp

theorem parseUpstreamError_spec_normalize_witness:
  "parseUpstreamError example_lib ''nested-and-top'' = spec_normalize example_lib ''nested-and-top'' \<and>
   parseUpstreamError example_lib ''nested-and-top'' =
     ''The requested Model is not supported'' @ hint \<and>
   parseUpstreamError example_lib ''top-only'' = spec_normalize example_lib ''top-only'' \<and>
   parseUpstreamError example_lib ''top-only'' = ''quota exceeded'' \<and>
   spec_normalize example_lib [] = ''unknown error'' \<and>
   spec_normalize example_lib ''Model Not Available'' = ''Model Not Available'' @ hint \<and>
   enhanceErrorMessage example_lib ''file not available'' = ''file not available''"
  using parseUpstreamError_spec_normalize [where L = example_lib and body = "''nested-and-top''"]
    parseUpstreamError_spec_normalize [where L = example_lib and body = "''top-only''"]
    parseUpstreamError_spec_normalize [where L = example_lib and body = "[]"]
    parseUpstreamError_spec_normalize [where L = example_lib and body = "''Model Not Available''"]
    example_parse_nested example_parse_top example_parse_empty example_parse_raw
  by simp

section \<open>Properties of the stream adapter\<close>

lemma Next_done: "done' s \<Longrightarrow> Next L now s = (s, None, Some io_EOF)"
  by (simp add: Next_def)

lemma Next_calls_done:
  "done' s \<Longrightarrow> Next_calls L nows s = (replicate (length nows) (None, Some io_EOF), s)"
  by (induction nows) (simp_all add: Next_done)

lemma Next_failed_status:
  assumes "\<not> done' s" "\<not> statusChecked s" "StatusCode (resp s) \<noteq> 200"
  shows "Next L now s =
    (s\<lparr>statusChecked := True, done' := True,
       err := Some (UpstreamError (StatusCode (resp s))
                      (parseUpstreamError L (bytes (Body (resp s)))))\<rparr>,
     None,
     Some (UpstreamError (StatusCode (resp s)) (parseUpstreamError L (bytes (Body (resp s))))))"
  using assms by (simp add: Next_def Let_def ReadAll_def)

lemma NewStream_simps [simp]:
  "done' (NewStream L r st) = False"
  "statusChecked (NewStream L r st) = False"
  "resp (NewStream L r st) = r"
  "streaming (NewStream L r st) = st"
  "response (NewStream L r st) = None"
  "err (NewStream L r st) = None"
  "reader (NewStream L r st) = (if st then Some (NewReader L (Body r)) else None)"
  by (simp_all add: NewStream_def Let_def)

text \<open>
  Claim C10. Whatever the body, the message that \<open>parseUpstreamError\<close> returns is not
  empty; so the upstream error that \<open>Next\<close> hands out for a response with a failing
  status, whatever the status, carries a non-empty message.
\<close>

theorem parseUpstreamError_never_empty:
  "parseUpstreamError L body \<noteq> [] \<and>
   (StatusCode r \<noteq> 200 \<longrightarrow>
      (\<exists>m. snd (Next L now (NewStream L r st)) = (None, Some (UpstreamError (StatusCode r) m)) \<and>
           m \<noteq> []))"
  by (simp add: parseUpstreamError_nonempty Next_failed_status)

theorem parseUpstreamError_never_empty_witness:
  "parseUpstreamError example_lib [] = ''unknown error'' \<and>
   parseUpstreamError example_lib [] \<noteq> [] \<and>
   parseUpstreamError example_lib ''top-only'' \<noteq> [] \<and>
   StatusCode (example_response 500 []) \<noteq> 200 \<and>
   snd (Next example_lib 5 (NewStream example_lib (example_response 500 []) False)) =
     (None, Some (UpstreamError 500 ''unknown error''))"
  using parseUpstreamError_never_empty [where L = example_lib and body = "[]"
      and r = "example_response 500 []" and now = 5 and st = False]
    parseUpstreamError_never_empty [where L = example_lib and body = "''top-only''"
      and r = "example_response 500 []" and now = 5 and st = False]
  by (simp add: example_parse_empty example_response_def Next_failed_status)

text \<open>
  Claim C2. For a response whose status is not 200, the first call of \<open>Next\<close> on the new
  stream, streaming or not, returns no chunk and the upstream error that carries the
  status of the response and the message \<open>parseUpstreamError\<close> computes from the body,
  which is the message of section 4.4 (\<open>spec_normalize\<close>); the stream keeps that error,
  and every later call returns \<^verbatim>\<open>io.EOF\<close>.
\<close>

theorem Next_upstream_error:
  assumes "StatusCode r \<noteq> 200"
  shows "snd (Next L now (NewStream L r st)) =
           (None, Some (UpstreamError (StatusCode r) (parseUpstreamError L (bytes (Body r))))) \<and>
         parseUpstreamError L (bytes (Body r)) = spec_normalize L (bytes (Body r)) \<and>
         Err (fst (Next L now (NewStream L r st))) =
           Some (UpstreamError (StatusCode r) (parseUpstreamError L (bytes (Body r)))) \<and>
         fst (Next_calls L nows (fst (Next L now (NewStream L r st)))) =
           replicate (length nows) (None, Some io_EOF)"
  using assms
  by (simp add: Next_failed_status Next_calls_done Err_def parseUpstreamError_refines)

theorem Next_upstream_error_witness:
  "StatusCode (example_response 404 ''nested-and-top'') \<noteq> 200 \<and>
   snd (Next example_lib 5 (NewStream example_lib (example_response 404 ''nested-and-top'') True)) =
     (None, Some (UpstreamError 404 (''The requested Model is not supported'' @ hint))) \<and>
   fst (Next_calls example_lib [6, 7]
     (fst (Next example_lib 5 (NewStream example_lib (example_response 404 ''nested-and-top'') True)))) =
     [(None, Some io_EOF), (None, Some io_EOF)]"
  using Next_upstream_error [where r = "example_response 404 ''nested-and-top''"
      and L = example_lib and now = 5 and st = True and nows = "[6, 7]"]
  by (simp add: example_response_def example_parse_nested)

lemma Next_streaming:
  assumes "\<not> done' s" "statusChecked s \<or> (StatusCode (resp s) = 200 \<and> streaming s)"
    "reader s = Some fs"
  shows "Next L now s = Next_loop L now (s\<lparr>statusChecked := True\<rparr>) fs"
proof (cases "statusChecked s")
  case True
  then have eq: "s\<lparr>statusChecked := True\<rparr> = s" by simp
  from assms True show ?thesis unfolding eq by (simp add: Next_def Let_def)
next
  case False
  with assms show ?thesis by (simp add: Next_def Let_def)
qed

lemma Next_loop_skip:
  "\<forall>f \<in> set sk. skipped L f \<Longrightarrow> Next_loop L now s (sk @ fs) = Next_loop L now s fs"
proof (induction sk)
  case Nil
  then show ?case by simp
next
  case (Cons f sk)
  then show ?case by (cases f) auto
qed

lemma surfaced_Nil [simp]: "surfaced L [] = []"
  by (simp add: surfaced_def map_filter_simps)

lemma surfaced_Cons:
  "surfaced L (ev # evs) =
     (if Data ev = [] then surfaced L evs
      else case unmarshalChunk L (Data ev) of None \<Rightarrow> surfaced L evs
           | Some c \<Rightarrow> c # surfaced L evs)"
  by (simp add: surfaced_def map_filter_simps split: option.splits)

lemma leading_events_map_Inr [simp]: "leading_events (map Inr evs) = evs"
  by (induction evs) simp_all

lemma stream_end_map_Inr [simp]: "stream_end (map Inr evs) = io_EOF"
  by (induction evs) simp_all

lemma Next_loop_end:
  "surfaced L (leading_events fs) = [] \<Longrightarrow>
   \<exists>s'. Next_loop L now s fs = (s', None, Some (stream_end fs))"
  by (induction fs rule: leading_events.induct)
    (auto simp: surfaced_Cons split: if_splits option.splits)

lemma Next_loop_chunk:
  "surfaced L (leading_events fs) = c # cs \<Longrightarrow>
   \<exists>fs'. Next_loop L now s fs = (s\<lparr>reader := Some fs'\<rparr>, Some (normalizeChunk now c), None) \<and>
         surfaced L (leading_events fs') = cs \<and> stream_end fs' = stream_end fs"
  by (induction fs rule: leading_events.induct)
    (auto simp: surfaced_Cons split: if_splits option.splits)

lemma Next_calls_streaming:
  assumes "\<not> done' s" "statusChecked s \<or> (StatusCode (resp s) = 200 \<and> streaming s)"
    "reader s = Some fs" "length nows = length (surfaced L (leading_events fs))"
  shows "fst (Next_calls L (nows @ [t]) s) =
     map (\<lambda>(now, c). (Some (normalizeChunk now c), None))
       (zip nows (surfaced L (leading_events fs))) @
     [(None, Some (stream_end fs))]"
  using assms
proof (induction nows arbitrary: s fs)
  case Nil
  then have "surfaced L (leading_events fs) = []" by simp
  from Next_loop_end [OF this, of t "s\<lparr>statusChecked := True\<rparr>"] obtain s' where
    "Next_loop L t (s\<lparr>statusChecked := True\<rparr>) fs = (s', None, Some (stream_end fs))"
    by blast
  with Nil show ?case
    by (simp add: Next_streaming [where fs = fs])
next
  case (Cons now nows)
  then obtain c cs where sf: "surfaced L (leading_events fs) = c # cs"
    by (cases "surfaced L (leading_events fs)") auto
  let ?s = "s\<lparr>statusChecked := True\<rparr>"
  from Next_loop_chunk [OF sf, of now ?s] obtain fs' where
    step: "Next_loop L now ?s fs = (?s\<lparr>reader := Some fs'\<rparr>, Some (normalizeChunk now c), None)"
    and rest: "surfaced L (leading_events fs') = cs" and fin: "stream_end fs' = stream_end fs"
    by blast
  let ?s' = "?s\<lparr>reader := Some fs'\<rparr>"
  have nx: "Next L now s = (?s', Some (normalizeChunk now c), None)"
    using Cons.prems step by (simp add: Next_streaming [where fs = fs])
  have "fst (Next_calls L (nows @ [t]) ?s') =
     map (\<lambda>(now, c). (Some (normalizeChunk now c), None))
       (zip nows (surfaced L (leading_events fs'))) @
     [(None, Some (stream_end fs'))]"
    using Cons.prems sf rest by (intro Cons.IH) auto
  with nx sf rest fin show ?case
    by (simp add: split_beta)
qed

lemma normalizeChunk_fields:
  "ChatCompletionChunk.Object (normalizeChunk now c) =
     (if ChatCompletionChunk.Object c = [] then ''chat.completion.chunk''
      else ChatCompletionChunk.Object c)"
  "ChatCompletionChunk.Created (normalizeChunk now c) =
     (if ChatCompletionChunk.Created c = 0 then now else ChatCompletionChunk.Created c)"
  "ChatCompletionChunk.more (normalizeChunk now c) = ChatCompletionChunk.more c"
  by (simp_all add: normalizeChunk_def Let_def)

lemma surfaced_filter:
  "surfaced L evs =
     map (\<lambda>ev. the (unmarshalChunk L (Data ev))) (filter (\<lambda>ev. \<not> skipped L (Inr ev)) evs)"
  by (induction evs) (auto simp: surfaced_Cons)

lemma surfaced_three:
  assumes "mset evs = {#blank, bad, good#}" "Data blank = []" "unmarshalChunk L (Data bad) = None"
    "Data good \<noteq> []" "unmarshalChunk L (Data good) = Some c"
  shows "surfaced L evs = [c]"
proof -
  define P where "P = (\<lambda>ev. \<not> skipped L (Inr ev))"
  have "\<not> P blank" "\<not> P bad" "P good"
    using assms by (simp_all add: P_def)
  then have "filter_mset P (mset evs) = {#good#}"
    using assms(1) by simp
  then have "mset (filter P evs) = {#good#}"
    by simp
  then have "filter P evs = [good]"
    by (simp only: mset_single_iff)
  with assms show ?thesis by (simp add: surfaced_filter P_def)
qed

text \<open>
  Claim C3. A stream is made in streaming mode for a response with status 200. The
  calls of \<open>Next\<close> return, in the order of the events the reader gives, one chunk for
  every event that has data and whose data decodes, and nothing for an event without
  data or with data that does not decode; after the last chunk they return what ends
  the stream, \<^verbatim>\<open>io.EOF\<close> at its natural end. A chunk is returned with the object kind
  \<open>''chat.completion.chunk''\<close> when it had none and with the reading of the clock as
  timestamp when it had the timestamp 0, and is otherwise as decoded. In particular,
  when the events are, in any order, one without data, one whose data does not decode
  and one that decodes to the chunk \<open>g\<close>, the first call returns \<open>g\<close> normalized and the
  second call \<^verbatim>\<open>io.EOF\<close>.
\<close>

theorem Next_streaming_chunks:
  "(StatusCode r = 200 \<and>
    length nows = length (surfaced L (leading_events (NewReader L (Body r)))) \<longrightarrow>
      fst (Next_calls L (nows @ [t]) (NewStream L r True)) =
        map (\<lambda>(now, c). (Some (normalizeChunk now c), None))
          (zip nows (surfaced L (leading_events (NewReader L (Body r))))) @
        [(None, Some (stream_end (NewReader L (Body r))))]) \<and>
   ChatCompletionChunk.Object (normalizeChunk now c) =
     (if ChatCompletionChunk.Object c = [] then ''chat.completion.chunk''
      else ChatCompletionChunk.Object c) \<and>
   ChatCompletionChunk.Created (normalizeChunk now c) =
     (if ChatCompletionChunk.Created c = 0 then now else ChatCompletionChunk.Created c) \<and>
   ChatCompletionChunk.more (normalizeChunk now c) = ChatCompletionChunk.more c \<and>
   (StatusCode r = 200 \<and> NewReader L (Body r) = map Inr evs \<and>
    mset evs = {#blank, bad, good#} \<and>
    Data blank = [] \<and> Data bad \<noteq> [] \<and> unmarshalChunk L (Data bad) = None \<and>
    Data good \<noteq> [] \<and> unmarshalChunk L (Data good) = Some g \<longrightarrow>
      fst (Next_calls L [ta, tb] (NewStream L r True)) =
        [(Some (normalizeChunk ta g), None), (None, Some io_EOF)])"
proof (intro conjI impI)
  assume a: "StatusCode r = 200 \<and>
    length nows = length (surfaced L (leading_events (NewReader L (Body r))))"
  then show "fst (Next_calls L (nows @ [t]) (NewStream L r True)) =
        map (\<lambda>(now, c). (Some (normalizeChunk now c), None))
          (zip nows (surfaced L (leading_events (NewReader L (Body r))))) @
        [(None, Some (stream_end (NewReader L (Body r))))]"
    by (intro Next_calls_streaming) simp_all
next
  assume a: "StatusCode r = 200 \<and> NewReader L (Body r) = map Inr evs \<and>
    mset evs = {#blank, bad, good#} \<and>
    Data blank = [] \<and> Data bad \<noteq> [] \<and> unmarshalChunk L (Data bad) = None \<and>
    Data good \<noteq> [] \<and> unmarshalChunk L (Data good) = Some g"
  then have sf: "surfaced L evs = [g]"
    by (intro surfaced_three [of evs blank bad good]) simp_all
  have "fst (Next_calls L ([ta] @ [tb]) (NewStream L r True)) =
        map (\<lambda>(now, c). (Some (normalizeChunk now c), None))
          (zip [ta] (surfaced L (leading_events (map Inr evs)))) @
        [(None, Some (stream_end (map Inr evs)))]"
    using a sf by (intro Next_calls_streaming) simp_all
  with sf show "fst (Next_calls L [ta, tb] (NewStream L r True)) =
        [(Some (normalizeChunk ta g), None), (None, Some io_EOF)]"
    by simp
qed (simp_all add: normalizeChunk_fields)

theorem Next_streaming_chunks_witness:
  "StatusCode (example_response 200 ''events'') = 200 \<and>
   NewReader example_lib (Body (example_response 200 ''events'')) =
     map Inr [\<lparr>Data = []\<rparr>, \<lparr>Data = ''not json''\<rparr>, \<lparr>Data = ''chunk''\<rparr>] \<and>
   mset [\<lparr>Data = []\<rparr>, \<lparr>Data = ''not json''\<rparr>, \<lparr>Data = ''chunk''\<rparr>] =
     {#\<lparr>Data = []\<rparr>, \<lparr>Data = ''not json''\<rparr>, \<lparr>Data = ''chunk''\<rparr>#} \<and>
   length [11 :: 64 word] =
     length (surfaced example_lib
       (leading_events (NewReader example_lib (Body (example_response 200 ''events''))))) \<and>
   stream_end (NewReader example_lib (Body (example_response 200 ''events''))) = io_EOF \<and>
   unmarshalChunk example_lib ''not json'' = None \<and>
   unmarshalChunk example_lib ''chunk'' =
     Some \<lparr>ChatCompletionChunk.Object = [], ChatCompletionChunk.Created = 0\<rparr> \<and>
   fst (Next_calls example_lib [11, 12] (NewStream example_lib (example_response 200 ''events'') True)) =
     [(Some \<lparr>ChatCompletionChunk.Object = ''chat.completion.chunk'',
             ChatCompletionChunk.Created = 11\<rparr>, None),
      (None, Some io_EOF)]"
  using Next_streaming_chunks [where r = "example_response 200 ''events''" and L = example_lib
      and evs = "[\<lparr>Data = []\<rparr>, \<lparr>Data = ''not json''\<rparr>, \<lparr>Data = ''chunk''\<rparr>]"
      and nows = "[11]" and t = 12 and ta = 11 and tb = 12
      and blank = "\<lparr>Data = []\<rparr>" and bad = "\<lparr>Data = ''not json''\<rparr>"
      and good = "\<lparr>Data = ''chunk''\<rparr>"
      and g = "\<lparr>ChatCompletionChunk.Object = [], ChatCompletionChunk.Created = 0\<rparr>"
      and now = 11
      and c = "\<lparr>ChatCompletionChunk.Object = [], ChatCompletionChunk.Created = 0\<rparr>"]
  by (simp add: example_response_def example_lib_def normalizeChunk_def surfaced_Cons)

lemma Next_nonstreaming:
  assumes "StatusCode r = 200" "readError (Body r) = None"
    "unmarshalResponse L (bytes (Body r)) = Inr x"
  shows "Next L now (NewStream L r False) =
    ((NewStream L r False)\<lparr>statusChecked := True, done' := True,
        response := Some (normalizeResponse now x)\<rparr>, None, Some io_EOF)"
  using assms by (simp add: Next_def Let_def readNonStreaming_def ReadAll_def)

lemma normalizeResponse_fields:
  "ChatCompletionResponse.Object (normalizeResponse now x) =
     (if ChatCompletionResponse.Object x = [] then ''chat.completion''
      else ChatCompletionResponse.Object x)"
  "ChatCompletionResponse.Created (normalizeResponse now x) =
     (if ChatCompletionResponse.Created x = 0 then now else ChatCompletionResponse.Created x)"
  "ChatCompletionResponse.more (normalizeResponse now x) = ChatCompletionResponse.more x"
  by (simp_all add: normalizeResponse_def Let_def)

lemma Next_nonstreaming_read_failure:
  assumes "StatusCode r = 200" "readError (Body r) = Some d"
  shows "Next L now (NewStream L r False) =
    ((NewStream L r False)\<lparr>statusChecked := True, done' := True, err := Some (ReadError d)\<rparr>,
     None, Some (ReadError d))"
  using assms by (simp add: Next_def Let_def readNonStreaming_def ReadAll_def)

lemma Next_nonstreaming_decode_failure:
  assumes "StatusCode r = 200" "readError (Body r) = None"
    "unmarshalResponse L (bytes (Body r)) = Inl d"
  shows "Next L now (NewStream L r False) =
    ((NewStream L r False)\<lparr>statusChecked := True, done' := True, err := Some (JSONError d)\<rparr>,
     None, Some (JSONError d))"
  using assms by (simp add: Next_def Let_def readNonStreaming_def ReadAll_def)


text \<open>
  Claim C5, as stated, fails on a non-streaming response with status 200 whose body does
  not decode: \<open>Next\<close> returns the decoding error, not \<^verbatim>\<open>io.EOF\<close>, and \<open>Response\<close> has
  nothing to return. It also fails for the timestamp when the body has none and the
  clock reads the Unix time 0.
\<close>

theorem Next_nonstreaming_counterexample:
  "snd (Next example_lib 1700000000 (NewStream example_lib (example_response 200 ''<html>'') False)) =
     (None, Some (JSONError ''invalid character'')) \<and>
   Response (fst (Next example_lib 1700000000
     (NewStream example_lib (example_response 200 ''<html>'') False))) = None \<and>
   Response (fst (Next example_lib 0
     (NewStream example_lib (example_response 200 ''response'') False))) =
     Some \<lparr>ChatCompletionResponse.Object = ''chat.completion'', ChatCompletionResponse.Created = 0\<rparr>"
  by (simp add: Next_def NewStream_def Let_def readNonStreaming_def ReadAll_def Response_def
      example_lib_def example_response_def normalizeResponse_def)

text \<open>
  Claim C5, amended. For a non-streaming call whose response has status 200: when the
  body is read without error and decodes as a response, the first call of \<open>Next\<close> returns
  \<^verbatim>\<open>io.EOF\<close> and no chunk, every later call does the same, no error is kept, and
  \<open>Response\<close> returns the decoded response, with the object kind \<open>''chat.completion''\<close> when
  the body had none, so never an empty one, and with the reading of the clock as
  timestamp when the body had the timestamp 0, so with a timestamp that is not 0 exactly
  when the body carried one or the clock does not read the Unix time 0. When reading the
  body fails, or the body does not decode, the first call of \<open>Next\<close> returns that error
  and no chunk, the stream keeps the error, \<open>Response\<close> returns nothing, and every later
  call returns \<^verbatim>\<open>io.EOF\<close>.
\<close>

theorem Next_nonstreaming_response:
  "(StatusCode r = 200 \<and> readError (Body r) = None \<and>
    unmarshalResponse L (bytes (Body r)) = Inr x \<longrightarrow>
      snd (Next L now (NewStream L r False)) = (None, Some io_EOF) \<and>
      fst (Next_calls L nows (fst (Next L now (NewStream L r False)))) =
        replicate (length nows) (None, Some io_EOF) \<and>
      Err (fst (Next L now (NewStream L r False))) = None \<and>
      Response (fst (Next L now (NewStream L r False))) = Some (normalizeResponse now x) \<and>
      ChatCompletionResponse.Object (normalizeResponse now x) =
        (if ChatCompletionResponse.Object x = [] then ''chat.completion''
         else ChatCompletionResponse.Object x) \<and>
      ChatCompletionResponse.Object (normalizeResponse now x) \<noteq> [] \<and>
      ChatCompletionResponse.Created (normalizeResponse now x) =
        (if ChatCompletionResponse.Created x = 0 then now else ChatCompletionResponse.Created x) \<and>
      (ChatCompletionResponse.Created (normalizeResponse now x) \<noteq> 0 \<longleftrightarrow>
         ChatCompletionResponse.Created x \<noteq> 0 \<or> now \<noteq> 0) \<and>
      ChatCompletionResponse.more (normalizeResponse now x) = ChatCompletionResponse.more x) \<and>
   (StatusCode r = 200 \<and> readError (Body r) = Some d \<longrightarrow>
      snd (Next L now (NewStream L r False)) = (None, Some (ReadError d)) \<and>
      Response (fst (Next L now (NewStream L r False))) = None \<and>
      Err (fst (Next L now (NewStream L r False))) = Some (ReadError d) \<and>
      fst (Next_calls L nows (fst (Next L now (NewStream L r False)))) =
        replicate (length nows) (None, Some io_EOF)) \<and>
   (StatusCode r = 200 \<and> readError (Body r) = None \<and>
    unmarshalResponse L (bytes (Body r)) = Inl d \<longrightarrow>
      snd (Next L now (NewStream L r False)) = (None, Some (JSONError d)) \<and>
      Response (fst (Next L now (NewStream L r False))) = None \<and>
      Err (fst (Next L now (NewStream L r False))) = Some (JSONError d) \<and>
      fst (Next_calls L nows (fst (Next L now (NewStream L r False)))) =
        replicate (length nows) (None, Some io_EOF))"
proof (intro conjI impI)
  assume a: "StatusCode r = 200 \<and> readError (Body r) = None \<and>
    unmarshalResponse L (bytes (Body r)) = Inr x"
  then have nx: "Next L now (NewStream L r False) =
    ((NewStream L r False)\<lparr>statusChecked := True, done' := True,
        response := Some (normalizeResponse now x)\<rparr>, None, Some io_EOF)"
    by (intro Next_nonstreaming) simp_all
  show "snd (Next L now (NewStream L r False)) = (None, Some io_EOF)"
    by (simp add: nx)
  show "fst (Next_calls L nows (fst (Next L now (NewStream L r False)))) =
        replicate (length nows) (None, Some io_EOF)"
    by (simp add: nx Next_calls_done)
  show "Err (fst (Next L now (NewStream L r False))) = None"
    by (simp add: nx Err_def)
  show "Response (fst (Next L now (NewStream L r False))) = Some (normalizeResponse now x)"
    by (simp add: nx Response_def)
next
  assume a: "StatusCode r = 200 \<and> readError (Body r) = Some d"
  then have nx: "Next L now (NewStream L r False) =
    ((NewStream L r False)\<lparr>statusChecked := True, done' := True, err := Some (ReadError d)\<rparr>,
     None, Some (ReadError d))"
    by (intro Next_nonstreaming_read_failure) simp_all
  show "snd (Next L now (NewStream L r False)) = (None, Some (ReadError d))"
    by (simp add: nx)
  show "Response (fst (Next L now (NewStream L r False))) = None"
    by (simp add: nx Response_def)
  show "Err (fst (Next L now (NewStream L r False))) = Some (ReadError d)"
    by (simp add: nx Err_def)
  show "fst (Next_calls L nows (fst (Next L now (NewStream L r False)))) =
        replicate (length nows) (None, Some io_EOF)"
    by (simp add: nx Next_calls_done)
next
  assume a: "StatusCode r = 200 \<and> readError (Body r) = None \<and>
    unmarshalResponse L (bytes (Body r)) = Inl d"
  then have nx: "Next L now (NewStream L r False) =
    ((NewStream L r False)\<lparr>statusChecked := True, done' := True, err := Some (JSONError d)\<rparr>,
     None, Some (JSONError d))"
    by (intro Next_nonstreaming_decode_failure) simp_all
  show "snd (Next L now (NewStream L r False)) = (None, Some (JSONError d))"
    by (simp add: nx)
  show "Response (fst (Next L now (NewStream L r False))) = None"
    by (simp add: nx Response_def)
  show "Err (fst (Next L now (NewStream L r False))) = Some (JSONError d)"
    by (simp add: nx Err_def)
  show "fst (Next_calls L nows (fst (Next L now (NewStream L r False)))) =
        replicate (length nows) (None, Some io_EOF)"
    by (simp add: nx Next_calls_done)
qed (auto simp: normalizeResponse_fields)

theorem Next_nonstreaming_response_witness:
  "StatusCode (example_response 200 ''response'') = 200 \<and>
   readError (Body (example_response 200 ''response'')) = None \<and>
   unmarshalResponse example_lib (bytes (Body (example_response 200 ''response''))) =
     Inr \<lparr>ChatCompletionResponse.Object = [], ChatCompletionResponse.Created = 0\<rparr> \<and>
   snd (Next example_lib 1700000000 (NewStream example_lib (example_response 200 ''response'') False)) =
     (None, Some io_EOF) \<and>
   Response (fst (Next example_lib 1700000000
     (NewStream example_lib (example_response 200 ''response'') False))) =
     Some \<lparr>ChatCompletionResponse.Object = ''chat.completion'',
           ChatCompletionResponse.Created = 1700000000\<rparr> \<and>
   StatusCode \<lparr>StatusCode = 200, Body = \<lparr>bytes = ''{'', readError = Some ''unexpected EOF''\<rparr>\<rparr> = 200 \<and>
   readError (Body \<lparr>StatusCode = 200, Body = \<lparr>bytes = ''{'', readError = Some ''unexpected EOF''\<rparr>\<rparr>) =
     Some ''unexpected EOF'' \<and>
   snd (Next example_lib 1700000000 (NewStream example_lib
     \<lparr>StatusCode = 200, Body = \<lparr>bytes = ''{'', readError = Some ''unexpected EOF''\<rparr>\<rparr> False)) =
     (None, Some (ReadError ''unexpected EOF'')) \<and>
   Response (fst (Next example_lib 1700000000 (NewStream example_lib
     \<lparr>StatusCode = 200, Body = \<lparr>bytes = ''{'', readError = Some ''unexpected EOF''\<rparr>\<rparr> False))) = None \<and>
   StatusCode (example_response 200 ''<html>'') = 200 \<and>
   readError (Body (example_response 200 ''<html>'')) = None \<and>
   unmarshalResponse example_lib (bytes (Body (example_response 200 ''<html>''))) =
     Inl ''invalid character'' \<and>
   snd (Next example_lib 1700000000 (NewStream example_lib (example_response 200 ''<html>'') False)) =
     (None, Some (JSONError ''invalid character'')) \<and>
   Response (fst (Next example_lib 1700000000
     (NewStream example_lib (example_response 200 ''<html>'') False))) = None"
  using Next_nonstreaming_response [where r = "example_response 200 ''response''"
      and L = example_lib and now = 1700000000 and nows = "[]"
      and x = "\<lparr>ChatCompletionResponse.Object = [], ChatCompletionResponse.Created = 0\<rparr>"]
    Next_nonstreaming_response [where L = example_lib and now = 1700000000 and nows = "[]"
      and r = "\<lparr>StatusCode = 200, Body = \<lparr>bytes = ''{'', readError = Some ''unexpected EOF''\<rparr>\<rparr>"
      and d = "''unexpected EOF''"]
    Next_nonstreaming_response [where r = "example_response 200 ''<html>''"
      and L = example_lib and now = 1700000000 and nows = "[]" and d = "''invalid character''"]
  by (simp add: example_response_def example_lib_def normalizeResponse_def)

section \<open>Properties of the credential broker\<close>

lemma getGitHubToken_store_error:
  "GetOAuthCredentials W = Inl d \<Longrightarrow>
   getGitHubToken W = Inl (FailedToGetCredentials (StoreError d))"
  by (simp add: getGitHubToken_def)

lemma getGitHubToken_empty:
  "GetOAuthCredentials W = Inr cr \<Longrightarrow> RefreshToken cr = [] \<Longrightarrow>
   getGitHubToken W = Inl NoGitHubToken"
  by (simp add: getGitHubToken_def)

lemma getGitHubToken_ok:
  "GetOAuthCredentials W = Inr cr \<Longrightarrow> RefreshToken cr \<noteq> [] \<Longrightarrow>
   getGitHubToken W = Inr (RefreshToken cr)"
  by (simp add: getGitHubToken_def)

lemma refreshCopilotToken_status:
  assumes "NewRequestWithContext W = None" "Do W (''token '' @ gh) = Inr rsp"
    "StatusCode rsp \<noteq> 200"
  shows "\<exists>e. refreshCopilotToken W gh = Inl e"
  using assms by (auto simp: refreshCopilotToken_def ReadAll_def split: option.splits)

lemma getCopilotToken_error_keeps:
  "getCopilotToken W c = (c', Inl e) \<Longrightarrow> c' = c"
  by (auto simp: getCopilotToken_def split: option.splits sum.splits)

lemma getCopilotToken_cached:
  "cached (Now_first W) c = Some token \<Longrightarrow> getCopilotToken W c = (c, Inr token)"
  "cached (Now_first W) c = None \<Longrightarrow> cached (Now_second W) c = Some token \<Longrightarrow>
   getCopilotToken W c = (c, Inr token)"
  by (simp_all add: getCopilotToken_def)

text \<open>
  Claim C6. When the cached token is absent or within the margin at both tests, and the
  credential store fails, or the stored credential is empty, or the token endpoint
  answers with a status other than 200, then \<open>getCopilotToken\<close> returns an error and
  the client it leaves is the client it found. More generally, whenever
  \<open>getCopilotToken\<close> returns an error the client is unchanged.
\<close>

theorem getCopilotToken_failure_keeps_cache:
  "(cached (Now_first W) c = None \<and> cached (Now_second W) c = None \<and>
    ((\<exists>d. GetOAuthCredentials W = Inl d) \<or>
     (\<exists>cr. GetOAuthCredentials W = Inr cr \<and> RefreshToken cr = []) \<or>
     (\<exists>cr rsp. GetOAuthCredentials W = Inr cr \<and> NewRequestWithContext W = None \<and>
         Do W (''token '' @ RefreshToken cr) = Inr rsp \<and> StatusCode rsp \<noteq> 200)) \<longrightarrow>
      (\<exists>e. getCopilotToken W c = (c, Inl e))) \<and>
   (\<forall>e. snd (getCopilotToken W c) = Inl e \<longrightarrow> fst (getCopilotToken W c) = c)"
proof (intro conjI impI allI)
  fix e assume "snd (getCopilotToken W c) = Inl e"
  then have "getCopilotToken W c = (fst (getCopilotToken W c), Inl e)"
    by (metis prod.collapse)
  then show "fst (getCopilotToken W c) = c" by (rule getCopilotToken_error_keeps)
next
  assume a: "cached (Now_first W) c = None \<and> cached (Now_second W) c = None \<and>
    ((\<exists>d. GetOAuthCredentials W = Inl d) \<or>
     (\<exists>cr. GetOAuthCredentials W = Inr cr \<and> RefreshToken cr = []) \<or>
     (\<exists>cr rsp. GetOAuthCredentials W = Inr cr \<and> NewRequestWithContext W = None \<and>
         Do W (''token '' @ RefreshToken cr) = Inr rsp \<and> StatusCode rsp \<noteq> 200))"
  then consider d where "GetOAuthCredentials W = Inl d"
    | cr where "GetOAuthCredentials W = Inr cr" "RefreshToken cr = []"
    | cr rsp where "GetOAuthCredentials W = Inr cr" "RefreshToken cr \<noteq> []"
        "NewRequestWithContext W = None"
        "Do W (''token '' @ RefreshToken cr) = Inr rsp" "StatusCode rsp \<noteq> 200"
    by blast
  then show "\<exists>e. getCopilotToken W c = (c, Inl e)"
  proof cases
    case 1
    with a show ?thesis
      by (auto simp: getCopilotToken_def getGitHubToken_store_error)
  next
    case 2
    with a show ?thesis
      by (auto simp: getCopilotToken_def getGitHubToken_empty)
  next
    case 3
    from refreshCopilotToken_status [OF 3(3,4,5)] obtain e
      where "refreshCopilotToken W (RefreshToken cr) = Inl e" by blast
    with a 3 show ?thesis
      by (auto simp: getCopilotToken_def getGitHubToken_ok)
  qed
qed

lemma example_cached:
  "cached (Now_first (example_world x)) example_client = None"
  "cached (Now_second (example_world x)) example_client = None"
  by (simp_all add: cached_def example_world_def example_client_def time_Second_def)

lemma example_getCopilotToken:
  "getCopilotToken (example_world (Inl ''no credentials'')) example_client =
     (example_client, Inl (FailedToGetCredentials (StoreError ''no credentials'')))"
  "getCopilotToken (example_world (Inr \<lparr>RefreshToken = []\<rparr>)) example_client =
     (example_client, Inl NoGitHubToken)"
  "getCopilotToken (example_world (Inr \<lparr>RefreshToken = ''gho_revoked''\<rparr>)) example_client =
     (example_client, Inl (TokenRequestFailed 401 ''Bad credentials''))"
  "getCopilotToken (example_world (Inr \<lparr>RefreshToken = ''gho_valid''\<rparr>)) example_client =
     (\<lparr>copilotToken = Some \<lparr>Token = ''tid=1'', ExpiresAt = 5000 * time_Second\<rparr>\<rparr>, Inr ''tid=1'')"
  by (simp_all add: getCopilotToken_def cached_def example_client_def time_Second_def
      getGitHubToken_def refreshCopilotToken_def ReadAll_def example_world_def
      example_response_def time_Unix_def)

theorem getCopilotToken_failure_keeps_cache_witness:
  "cached (Now_first (example_world (Inr \<lparr>RefreshToken = ''gho_revoked''\<rparr>))) example_client = None \<and>
   cached (Now_second (example_world (Inr \<lparr>RefreshToken = ''gho_revoked''\<rparr>))) example_client = None \<and>
   GetOAuthCredentials (example_world (Inr \<lparr>RefreshToken = ''gho_revoked''\<rparr>)) =
     Inr \<lparr>RefreshToken = ''gho_revoked''\<rparr> \<and>
   NewRequestWithContext (example_world (Inr \<lparr>RefreshToken = ''gho_revoked''\<rparr>)) = None \<and>
   Do (example_world (Inr \<lparr>RefreshToken = ''gho_revoked''\<rparr>)) ''token gho_revoked'' =
     Inr (example_response 401 ''Bad credentials'') \<and>
   StatusCode (example_response 401 ''Bad credentials'') \<noteq> 200 \<and>
   getCopilotToken (example_world (Inr \<lparr>RefreshToken = ''gho_revoked''\<rparr>)) example_client =
     (example_client, Inl (TokenRequestFailed 401 ''Bad credentials'')) \<and>
   getCopilotToken (example_world (Inl ''no credentials'')) example_client =
     (example_client, Inl (FailedToGetCredentials (StoreError ''no credentials''))) \<and>
   getCopilotToken (example_world (Inr \<lparr>RefreshToken = []\<rparr>)) example_client =
     (example_client, Inl NoGitHubToken)"
  using getCopilotToken_failure_keeps_cache
      [where W = "example_world (Inr \<lparr>RefreshToken = ''gho_revoked''\<rparr>)" and c = example_client]
    getCopilotToken_failure_keeps_cache
      [where W = "example_world (Inl ''no credentials'')" and c = example_client]
    getCopilotToken_failure_keeps_cache
      [where W = "example_world (Inr \<lparr>RefreshToken = []\<rparr>)" and c = example_client]
  by (simp add: example_cached example_getCopilotToken)
    (simp add: example_world_def example_response_def)

section \<open>Properties of the role remapping\<close>

lemma transformMessages_body_step:
  assumes "a \<noteq> r" "k < length (arrays g r)"
  shows "transformMessages_body a r k g =
    g\<lparr>arrays := (arrays g)(r := (arrays g r)[k := remap_role (arrays g a ! k)])\<rparr>"
  using assms by (simp add: transformMessages_body_def Let_def store_def remap_role_def)

lemma transformMessages_fold:
  assumes "a \<noteq> r" "arrays h1 a = src" "arrays h1 r = replicate (length src) zero"
    "k \<le> length src"
  shows "fold (transformMessages_body a r) [0..<k] h1 =
    h1\<lparr>arrays := (arrays h1)(r := map remap_role (take k src) @
                                     replicate (length src - k) zero)\<rparr>"
  using assms(4)
proof (induction k)
  case 0
  have "(arrays h1)(r := replicate (length src) zero) = arrays h1"
    using assms(3) by (metis fun_upd_triv)
  then show ?case by simp
next
  case (Suc k)
  then have k: "k < length src" by simp
  let ?g = "h1\<lparr>arrays := (arrays h1)(r := map remap_role (take k src) @
                                          replicate (length src - k) zero)\<rparr>"
  have upd: "(map remap_role (take k src) @ replicate (length src - k) zero)[k := v] =
      map remap_role (take k src) @ v # replicate (length src - Suc k) zero" for v
  proof -
    have "replicate (length src - k) zero = zero # replicate (length src - Suc k) zero"
      using k by (metis Suc_diff_Suc replicate_Suc)
    then show ?thesis using k by (simp add: list_update_append)
  qed
  have tk: "take (Suc k) src = take k src @ [src ! k]"
    using k by (simp add: take_Suc_conv_app_nth)
  have ih: "fold (transformMessages_body a r) [0..<k] h1 = ?g"
    by (rule Suc.IH) (use k in simp)
  have "fold (transformMessages_body a r) [0..<Suc k] h1 =
      transformMessages_body a r k (fold (transformMessages_body a r) [0..<k] h1)"
    by simp
  also have "\<dots> = transformMessages_body a r k ?g"
    by (simp only: ih)
  also have "\<dots> = ?g\<lparr>arrays := (arrays ?g)(r := (arrays ?g r)[k := remap_role (arrays ?g a ! k)])\<rparr>"
    using assms(1) k by (intro transformMessages_body_step) simp_all
  also have "\<dots> = h1\<lparr>arrays := (arrays h1)(r := map remap_role (take (Suc k) src) @
                        replicate (length src - Suc k) zero)\<rparr>"
    using assms(1,2) by (simp add: upd tk)
  finally show ?case .
qed

lemma transformMessages_result:
  assumes "a < free h"
  shows "transformMessages zero h a =
    (h\<lparr>arrays := (arrays h)(free h := map remap_role (arrays h a)), free := Suc (free h)\<rparr>,
     free h)"
proof -
  let ?n = "length (arrays h a)"
  let ?h1 = "h\<lparr>arrays := (arrays h)(free h := replicate ?n zero), free := Suc (free h)\<rparr>"
  have ne: "a \<noteq> free h" using assms by simp
  have "fold (transformMessages_body a (free h)) [0..<?n] ?h1 =
        ?h1\<lparr>arrays := (arrays ?h1)(free h := map remap_role (take ?n (arrays h a)) @
                                             replicate (?n - ?n) zero)\<rparr>"
    using ne by (intro transformMessages_fold) simp_all
  then show ?thesis
    by (simp add: transformMessages_def make_slice_def Let_def)
qed

text \<open>
  Claim C7. \<open>ChatCompletion\<close> hands to \<open>SendRequest\<close> the request of the caller with its
  messages replaced by a new slice, and the store in which that slice holds the
  messages of the caller in their order, each one with the role \<open>''assistant''\<close> when
  its role was \<open>''system''\<close> and with its own role otherwise, and with every other field
  as it was. Every array that existed before the call, the caller's messages among
  them, is in the new store what it was in the old one.
\<close>

theorem ChatCompletion_remaps_system:
  assumes "Messages req < free h"
  shows "transformMessages zero h (Messages req) =
      (h\<lparr>arrays := (arrays h)(free h := map remap_role (arrays h (Messages req))),
         free := Suc (free h)\<rparr>, free h) \<and>
    ChatCompletion L SendRequest zero h req =
      (fst (transformMessages zero h (Messages req)),
       map_sum id (\<lambda>resp'. NewStream L resp' (Stream req))
         (SendRequest (fst (transformMessages zero h (Messages req)))
            (req\<lparr>Messages := free h\<rparr>))) \<and>
    length (arrays (fst (transformMessages zero h (Messages req))) (free h)) =
      length (arrays h (Messages req)) \<and>
    (\<forall>i < length (arrays h (Messages req)).
       Role (arrays (fst (transformMessages zero h (Messages req))) (free h) ! i) =
         (if Role (arrays h (Messages req) ! i) = ''system'' then ''assistant''
          else Role (arrays h (Messages req) ! i)) \<and>
       Message.more (arrays (fst (transformMessages zero h (Messages req))) (free h) ! i) =
         Message.more (arrays h (Messages req) ! i)) \<and>
    (\<forall>b < free h. arrays (fst (transformMessages zero h (Messages req))) b = arrays h b)"
  using assms
  by (auto simp: transformMessages_result ChatCompletion_def remap_role_def split: sum.splits)

theorem ChatCompletion_remaps_system_witness:
  "Messages \<lparr>Messages = 0, Stream = False\<rparr> < free example_heap \<and>
   snd (transformMessages \<lparr>Role = [], Content = []\<rparr> example_heap 0) = 1 \<and>
   arrays (fst (transformMessages \<lparr>Role = [], Content = []\<rparr> example_heap 0)) 1 =
     [\<lparr>Role = ''assistant'', Content = ''be brief''\<rparr>,
      \<lparr>Role = ''user'', Content = ''hello''\<rparr>,
      \<lparr>Role = ''tool'', Content = ''42''\<rparr>] \<and>
   arrays (fst (transformMessages \<lparr>Role = [], Content = []\<rparr> example_heap 0)) 0 =
     [\<lparr>Role = ''system'', Content = ''be brief''\<rparr>,
      \<lparr>Role = ''user'', Content = ''hello''\<rparr>,
      \<lparr>Role = ''tool'', Content = ''42''\<rparr>] \<and>
   snd (ChatCompletion example_lib (\<lambda>h q. Inl (TransportError ''offline''))
          \<lparr>Role = [], Content = []\<rparr> example_heap \<lparr>Messages = 0, Stream = False\<rparr>) =
     Inl (TransportError ''offline'')"
  using ChatCompletion_remaps_system [where req = "\<lparr>Messages = 0, Stream = False\<rparr>"
      and h = example_heap and zero = "\<lparr>Role = [], Content = []\<rparr>" and L = example_lib
      and SendRequest = "\<lambda>h q. Inl (TransportError ''offline'')"]
  by (simp add: example_heap_def remap_role_def)

end
